theory Spec2Isabelle
  imports Complex_Main "HOL-Library.Multiset"
begin

section \<open>JavaScript values and plain objects\<close>

text \<open>
  The dashboard code stores numbers and strings in plain objects (\<^verbatim>\<open>{}\<close> literals and
  parsed JSON) and reads them back with \<^verbatim>\<open>obj[key]\<close>. A read that finds no own property
  continues in \<^verbatim>\<open>Object.prototype\<close>, so the values a read can produce are: \<^verbatim>\<open>undefined\<close>,
  a number (a finite one is a \<open>real\<close> here; \<^verbatim>\<open>NaN\<close> and \<^verbatim>\<open>Infinity\<close> are kept apart),
  a string, or a member of \<^verbatim>\<open>Object.prototype\<close> (the built-in function of that name, or
  the prototype object itself for \<^verbatim>\<open>__proto__\<close>).
\<close>

datatype jsval = Undefined | NaN | Infinity | Num real | Str string | Inherited string

text \<open>The property names of \<^verbatim>\<open>Object.prototype\<close> in a browser.\<close>

definition Object_prototype_keys :: "string list" where
  "Object_prototype_keys =
     [''constructor'', ''hasOwnProperty'', ''isPrototypeOf'', ''propertyIsEnumerable'',
      ''toLocaleString'', ''toString'', ''valueOf'', ''__proto__'',
      ''__defineGetter__'', ''__defineSetter__'', ''__lookupGetter__'', ''__lookupSetter__'']"

text \<open>A plain object: its own properties in creation order.\<close>

type_synonym object = "(string \<times> jsval) list"

text \<open>\<^verbatim>\<open>obj[k]\<close>: the own property, else the inherited one, else \<^verbatim>\<open>undefined\<close>.\<close>

definition js_get :: "object \<Rightarrow> string \<Rightarrow> jsval" where
  "js_get obj k =
     (case map_of obj k of
        Some v \<Rightarrow> v
      | None \<Rightarrow> if k \<in> set Object_prototype_keys then Inherited k else Undefined)"

text \<open>
  \<^verbatim>\<open>obj[k] = v\<close> for a number or string \<open>v\<close>: an existing own property keeps its place,
  a new one is appended. Assigning to \<^verbatim>\<open>__proto__\<close> runs the inherited setter, which
  ignores every value that is neither an object nor \<^verbatim>\<open>null\<close>.
\<close>

fun own_update :: "string \<Rightarrow> jsval \<Rightarrow> object \<Rightarrow> object" where
  "own_update k v [] = [(k, v)]"
| "own_update k v (p # ps) = (if fst p = k then (k, v) # ps else p # own_update k v ps)"

definition js_set :: "object \<Rightarrow> string \<Rightarrow> jsval \<Rightarrow> object" where
  "js_set obj k v = (if k = ''__proto__'' then obj else own_update k v obj)"

fun truthy :: "jsval \<Rightarrow> bool" where
  "truthy Undefined = False"
| "truthy NaN = False"
| "truthy Infinity = True"
| "truthy (Num x) = (x \<noteq> 0)"
| "truthy (Str s) = (s \<noteq> [])"
| "truthy (Inherited k) = True"

text \<open>\<^verbatim>\<open>a || b\<close>\<close>

definition js_or :: "jsval \<Rightarrow> jsval \<Rightarrow> jsval" where
  "js_or a b = (if truthy a then a else b)"

text \<open>
  Arithmetic on what the dashboard reads from objects. A member of \<^verbatim>\<open>Object.prototype\<close>
  is first turned into text: the source text of the built-in function (written here as
  V8 prints it), or \<^verbatim>\<open>[object Object]\<close> for the prototype object.
\<close>

definition builtin_text :: "string \<Rightarrow> string" where
  "builtin_text k =
     (if k = ''__proto__'' then ''[object Object]''
      else ''function '' @ (if k = ''constructor'' then ''Object'' else k) @ ''() { [native code] }'')"

text \<open>\<^verbatim>\<open>v + 1\<close>: addition on numbers, concatenation once a string is involved.\<close>

fun js_plus_one :: "jsval \<Rightarrow> jsval" where
  "js_plus_one (Num x) = Num (x + 1)"
| "js_plus_one (Str s) = Str (s @ ''1'')"
| "js_plus_one (Inherited k) = Str (builtin_text k @ ''1'')"
| "js_plus_one Infinity = Infinity"
| "js_plus_one Undefined = NaN"
| "js_plus_one NaN = NaN"

text \<open>
  \<^verbatim>\<open>b - a\<close>, \<^verbatim>\<open>c / t\<close> and \<^verbatim>\<open>p * 100\<close> convert their operands to numbers. The only
  non-numbers that reach them here are members of \<^verbatim>\<open>Object.prototype\<close> and texts built
  from them, none of which reads as a numeral, so they convert to \<^verbatim>\<open>NaN\<close>. A division
  of a positive count by zero is \<^verbatim>\<open>Infinity\<close>.
\<close>

fun js_minus :: "jsval \<Rightarrow> jsval \<Rightarrow> jsval" where
  "js_minus (Num x) (Num y) = Num (x - y)"
| "js_minus _ _ = NaN"

fun js_div :: "jsval \<Rightarrow> real \<Rightarrow> jsval" where
  "js_div (Num x) t = (if t = 0 then (if 0 < x then Infinity else NaN) else Num (x / t))"
| "js_div _ t = NaN"

fun js_times_100 :: "jsval \<Rightarrow> jsval" where
  "js_times_100 (Num x) = Num (x * 100)"
| "js_times_100 Infinity = Infinity"
| "js_times_100 _ = NaN"

section \<open>The API service (services/api.ts)\<close>

text \<open>
  \<^verbatim>\<open>api.get(url, { params })\<close> hands one request to the server and either returns the
  response body or throws. The server is a parameter; the requests issued so far are
  kept in a list so that what a function sends can be stated.
\<close>

record request =
  url :: string
  params :: object

type_synonym ('e, 'a) server = "request \<Rightarrow> 'e + 'a"

definition api_get ::
  "('e, 'a) server \<Rightarrow> request list \<Rightarrow> string \<Rightarrow> object \<Rightarrow> ('e + 'a) \<times> request list" where
  "api_get server sent u ps =
     (server \<lparr>url = u, params = ps\<rparr>, sent @ [\<lparr>url = u, params = ps\<rparr>])"

text \<open>
  An optional string argument is \<open>None\<close> when the caller leaves it out (or passes
  \<^verbatim>\<open>undefined\<close>). \<^verbatim>\<open>if (x) params.k = x\<close> assigns when \<open>x\<close> is truthy: a non-empty string.
\<close>

definition assign_if :: "string \<Rightarrow> string option \<Rightarrow> object \<Rightarrow> object" where
  "assign_if k x ps =
     (case x of
        None \<Rightarrow> ps
      | Some s \<Rightarrow> if truthy (Str s) then js_set ps k (Str s) else ps)"

text \<open>A numeric argument with a default: the default applies when it is left out.\<close>

definition default_arg :: "real \<Rightarrow> real option \<Rightarrow> real" where
  "default_arg d x = (case x of None \<Rightarrow> d | Some v \<Rightarrow> v)"

definition getAnalyticsOverview ::
  "('e, 'a) server \<Rightarrow> request list \<Rightarrow> string option \<Rightarrow> string option
     \<Rightarrow> ('e + 'a) \<times> request list" where
  "getAnalyticsOverview server sent dateFrom dateTo =
     (let ps = [];
          ps = assign_if ''date_from'' dateFrom ps;
          ps = assign_if ''date_to'' dateTo ps
      in api_get server sent ''/api/v1/analytics/overview'' ps)"

definition getTeamPerformance ::
  "('e, 'a) server \<Rightarrow> request list \<Rightarrow> string option \<Rightarrow> string option
     \<Rightarrow> ('e + 'a) \<times> request list" where
  "getTeamPerformance server sent dateFrom dateTo =
     (let ps = [];
          ps = assign_if ''date_from'' dateFrom ps;
          ps = assign_if ''date_to'' dateTo ps
      in api_get server sent ''/api/v1/analytics/team/performance'' ps)"

definition getProductivityRanking ::
  "('e, 'a) server \<Rightarrow> request list \<Rightarrow> string option \<Rightarrow> string option \<Rightarrow> real option
     \<Rightarrow> ('e + 'a) \<times> request list" where
  "getProductivityRanking server sent dateFrom dateTo limit =
     (let ps = [(''limit'', Num (default_arg 10 limit))];
          ps = assign_if ''date_from'' dateFrom ps;
          ps = assign_if ''date_to'' dateTo ps
      in api_get server sent ''/api/v1/analytics/productivity/ranking'' ps)"

definition getDailyTrends ::
  "('e, 'a) server \<Rightarrow> request list \<Rightarrow> string option \<Rightarrow> string option
     \<Rightarrow> ('e + 'a) \<times> request list" where
  "getDailyTrends server sent dateFrom dateTo =
     (let ps = [];
          ps = assign_if ''date_from'' dateFrom ps;
          ps = assign_if ''date_to'' dateTo ps
      in api_get server sent ''/api/v1/analytics/trends/daily'' ps)"

definition getQuickClusteringAnalysis ::
  "('e, 'a) server \<Rightarrow> request list \<Rightarrow> string option \<Rightarrow> string option \<Rightarrow> real option
     \<Rightarrow> ('e + 'a) \<times> request list" where
  "getQuickClusteringAnalysis server sent dateFrom dateTo nClusters =
     (let ps = [(''n_clusters'', Num (default_arg 3 nClusters))];
          ps = assign_if ''date_from'' dateFrom ps;
          ps = assign_if ''date_to'' dateTo ps
      in api_get server sent ''/api/v1/ml/clustering/quick-analysis'' ps)"

text \<open>The requests a call added to that list, and what a request carries under a key.\<close>

definition issued :: "request list \<Rightarrow> request list \<Rightarrow> request list" where
  "issued before after = drop (length before) after"

definition param :: "string \<Rightarrow> request \<Rightarrow> jsval option" where
  "param k r = map_of (params r) k"

text \<open>What a date argument puts into the request: itself when non-empty, nothing otherwise.\<close>

definition date_bound :: "string option \<Rightarrow> jsval option" where
  "date_bound x = (case x of None \<Rightarrow> None | Some s \<Rightarrow> if s = [] then None else Some (Str s))"

section \<open>Arrays with identity\<close>

text \<open>
  \<^verbatim>\<open>Array.prototype.sort\<close> reorders the array it is called on, so whether a getter
  disturbs the array it was given depends on which array it sorts. Arrays therefore live
  in a heap, addressed by reference; \<^verbatim>\<open>[...a]\<close> and \<^verbatim>\<open>slice\<close> allocate, \<^verbatim>\<open>sort\<close> writes in
  place and returns the reference it was called on.
\<close>

record 'a heap =
  next_ref :: nat
  cells :: "nat \<Rightarrow> 'a list option"

definition array_read :: "'a heap \<Rightarrow> nat \<Rightarrow> 'a list" where
  "array_read h a = (case cells h a of Some xs \<Rightarrow> xs | None \<Rightarrow> [])"

definition alloc :: "'a heap \<Rightarrow> 'a list \<Rightarrow> 'a heap \<times> nat" where
  "alloc h xs =
     (h\<lparr>next_ref := Suc (next_ref h), cells := (cells h)(next_ref h \<mapsto> xs)\<rparr>, next_ref h)"

definition spread :: "'a heap \<Rightarrow> nat \<Rightarrow> 'a heap \<times> nat" where
  "spread h a = alloc h (array_read h a)"

definition Array_slice :: "'a heap \<Rightarrow> nat \<Rightarrow> nat \<Rightarrow> nat \<Rightarrow> 'a heap \<times> nat" where
  "Array_slice h a i j = alloc h (take (j - i) (drop i (array_read h a)))"

text \<open>
  The comparator returns a number; \<^verbatim>\<open>sort\<close> reads \<^verbatim>\<open>NaN\<close> as 0. The sort is stable: an
  element moves in front of the first later element it does not compare greater than.
  For a comparator that is a consistent ordering every engine produces this order.
\<close>

fun cmp_sign :: "jsval \<Rightarrow> real" where
  "cmp_sign (Num x) = x"
| "cmp_sign Infinity = 1"
| "cmp_sign _ = 0"

fun insert_by :: "('a \<Rightarrow> 'a \<Rightarrow> jsval) \<Rightarrow> 'a \<Rightarrow> 'a list \<Rightarrow> 'a list" where
  "insert_by cmp x [] = [x]"
| "insert_by cmp x (y # ys) =
     (if cmp_sign (cmp x y) \<le> 0 then x # y # ys else y # insert_by cmp x ys)"

definition sort_by :: "('a \<Rightarrow> 'a \<Rightarrow> jsval) \<Rightarrow> 'a list \<Rightarrow> 'a list" where
  "sort_by cmp xs = foldr (insert_by cmp) xs []"

definition Array_sort :: "'a heap \<Rightarrow> nat \<Rightarrow> ('a \<Rightarrow> 'a \<Rightarrow> jsval) \<Rightarrow> 'a heap \<times> nat" where
  "Array_sort h a cmp = (h\<lparr>cells := (cells h)(a \<mapsto> sort_by cmp (array_read h a))\<rparr>, a)"

section \<open>The analytics store (stores/analytics.ts)\<close>

text \<open>The clustering response, as \<^verbatim>\<open>services/api.ts\<close> declares it.\<close>

record ClusteringResult =
  user_id :: string
  worker_id :: string
  name :: string
  cluster :: real
  cluster_label :: string
  performance_score :: real
  features :: "(string \<times> real) list"

record ClusteringResponse =
  results :: "ClusteringResult list"
  cluster_centers :: "(string \<times> real list) list"
  feature_names :: "string list"
  analysis_period :: "string \<times> string"
  total_users :: real
  model_accuracy :: real

text \<open>
  The store keeps each response body as it arrived. Only the clustering response is
  looked into, so the other bodies are type parameters: \<open>'o\<close> the overview, \<open>'t\<close> a team
  performance row, \<open>'d\<close> the daily trends, \<open>'r\<close> a ranking row.
\<close>

record ('o, 't, 'd, 'r) store =
  loading :: bool
  error :: "string option"
  overview :: "'o option"
  teamPerformance :: "'t list"
  clusteringResults :: "ClusteringResponse option"
  dailyTrends :: "'d option"
  productivityRanking :: "'r list"
  dateFrom :: string
  dateTo :: string

text \<open>
  A fetch action run on its own: \<^verbatim>\<open>try { loading = true; error = null; x = await call }
  catch { error = message } finally { loading = false }\<close>. When the call throws, the
  assignment to \<open>x\<close> does not happen.
\<close>

definition fetchOverview ::
  "('e, 'o) server \<Rightarrow> string option \<Rightarrow> string option \<Rightarrow> ('o, 't, 'd, 'r) store \<Rightarrow> request list
     \<Rightarrow> ('o, 't, 'd, 'r) store \<times> request list" where
  "fetchOverview server date_from date_to s sent =
     (let s = s\<lparr>loading := True, error := None\<rparr>;
          (r, sent) = getAnalyticsOverview server sent date_from date_to
      in case r of
           Inr body \<Rightarrow> (s\<lparr>overview := Some body, loading := False\<rparr>, sent)
         | Inl err \<Rightarrow>
             (s\<lparr>error := Some ''Failed to fetch analytics overview'', loading := False\<rparr>, sent))"

definition fetchTeamPerformance ::
  "('e, 't list) server \<Rightarrow> string option \<Rightarrow> string option \<Rightarrow> ('o, 't, 'd, 'r) store
     \<Rightarrow> request list \<Rightarrow> ('o, 't, 'd, 'r) store \<times> request list" where
  "fetchTeamPerformance server date_from date_to s sent =
     (let s = s\<lparr>loading := True, error := None\<rparr>;
          (r, sent) = getTeamPerformance server sent date_from date_to
      in case r of
           Inr body \<Rightarrow> (s\<lparr>teamPerformance := body, loading := False\<rparr>, sent)
         | Inl err \<Rightarrow>
             (s\<lparr>error := Some ''Failed to fetch team performance'', loading := False\<rparr>, sent))"

definition fetchClusteringAnalysis ::
  "('e, ClusteringResponse) server \<Rightarrow> string option \<Rightarrow> string option \<Rightarrow> real option
     \<Rightarrow> ('o, 't, 'd, 'r) store \<Rightarrow> request list \<Rightarrow> ('o, 't, 'd, 'r) store \<times> request list" where
  "fetchClusteringAnalysis server date_from date_to clusters s sent =
     (let clusters = default_arg 3 clusters;
          s = s\<lparr>loading := True, error := None\<rparr>;
          (r, sent) = getQuickClusteringAnalysis server sent date_from date_to (Some clusters)
      in case r of
           Inr body \<Rightarrow> (s\<lparr>clusteringResults := Some body, loading := False\<rparr>, sent)
         | Inl err \<Rightarrow>
             (s\<lparr>error := Some ''Failed to fetch clustering analysis'', loading := False\<rparr>, sent))"

definition fetchDailyTrends ::
  "('e, 'd) server \<Rightarrow> string option \<Rightarrow> string option \<Rightarrow> ('o, 't, 'd, 'r) store \<Rightarrow> request list
     \<Rightarrow> ('o, 't, 'd, 'r) store \<times> request list" where
  "fetchDailyTrends server date_from date_to s sent =
     (let s = s\<lparr>loading := True, error := None\<rparr>;
          (r, sent) = getDailyTrends server sent date_from date_to
      in case r of
           Inr body \<Rightarrow> (s\<lparr>dailyTrends := Some body, loading := False\<rparr>, sent)
         | Inl err \<Rightarrow>
             (s\<lparr>error := Some ''Failed to fetch daily trends'', loading := False\<rparr>, sent))"

definition fetchProductivityRanking ::
  "('e, 'r list) server \<Rightarrow> string option \<Rightarrow> string option \<Rightarrow> real option
     \<Rightarrow> ('o, 't, 'd, 'r) store \<Rightarrow> request list \<Rightarrow> ('o, 't, 'd, 'r) store \<times> request list" where
  "fetchProductivityRanking server date_from date_to limit s sent =
     (let limit = default_arg 10 limit;
          s = s\<lparr>loading := True, error := None\<rparr>;
          (r, sent) = getProductivityRanking server sent date_from date_to (Some limit)
      in case r of
           Inr body \<Rightarrow> (s\<lparr>productivityRanking := body, loading := False\<rparr>, sent)
         | Inl err \<Rightarrow>
             (s\<lparr>error := Some ''Failed to fetch productivity ranking'', loading := False\<rparr>, sent))"

subsection \<open>clusterDistribution\<close>

text \<open>
  The \<^verbatim>\<open>forEach\<close> over the results: \<^verbatim>\<open>distribution[l] = (distribution[l] || 0) + 1\<close> on
  an object that starts as \<^verbatim>\<open>{}\<close>.
\<close>

fun tally :: "ClusteringResult list \<Rightarrow> object \<Rightarrow> object" where
  "tally [] distribution = distribution"
| "tally (result # rest) distribution =
     tally rest
       (js_set distribution (cluster_label result)
          (js_plus_one (js_or (js_get distribution (cluster_label result)) (Num 0))))"

text \<open>
  \<^verbatim>\<open>Object.entries\<close> lists the keys that are array indices (canonical decimal numerals
  below \<open>2\<^sup>3\<^sup>2 - 1\<close>) in ascending numeric order, then the other keys in creation order.
\<close>

definition is_digit :: "char \<Rightarrow> bool" where
  "is_digit c = (48 \<le> (of_char c :: int) \<and> (of_char c :: int) \<le> 57)"

definition index_value :: "string \<Rightarrow> int" where
  "index_value s = foldl (\<lambda>n c. 10 * n + ((of_char c :: int) - 48)) 0 s"

definition is_array_index :: "string \<Rightarrow> bool" where
  "is_array_index s =
     (s \<noteq> [] \<and> list_all is_digit s \<and> (if hd s = CHR ''0'' then length s = 1 else True)
      \<and> index_value s < 4294967295)"

definition Object_entries :: "object \<Rightarrow> (string \<times> jsval) list" where
  "Object_entries obj =
     sort_key (\<lambda>p. index_value (fst p)) (filter (\<lambda>p. is_array_index (fst p)) obj)
     @ filter (\<lambda>p. \<not> is_array_index (fst p)) obj"

text \<open>An entry of the distribution; its \<^verbatim>\<open>count\<close> field is \<open>count_of\<close> here.\<close>

record entry =
  label :: string
  count_of :: jsval
  percentage :: jsval

definition clusterDistribution :: "('o, 't, 'd, 'r) store \<Rightarrow> entry list" where
  "clusterDistribution s =
     (case clusteringResults s of
        None \<Rightarrow> []
      | Some response \<Rightarrow>
          map (\<lambda>(l, c). \<lparr>label = l, count_of = c,
                         percentage = js_times_100 (js_div c (total_users response))\<rparr>)
            (Object_entries (tally (results response) [])))"

subsection \<open>topPerformers\<close>

text \<open>
  \<open>results_ref\<close> is the reference of the array \<^verbatim>\<open>clusteringResults.value.results\<close>, or
  \<open>None\<close> while no response is stored. The getter returns the reference of its result.
\<close>

definition by_performance_score :: "ClusteringResult \<Rightarrow> ClusteringResult \<Rightarrow> jsval" where
  "by_performance_score a b = js_minus (Num (performance_score b)) (Num (performance_score a))"

definition topPerformers ::
  "ClusteringResult heap \<Rightarrow> nat option \<Rightarrow> ClusteringResult heap \<times> nat" where
  "topPerformers h results_ref =
     (case results_ref of
        None \<Rightarrow> alloc h []
      | Some a \<Rightarrow>
          (let (h, c) = spread h a;
               (h, c) = Array_sort h c by_performance_score
           in Array_slice h c 0 5))"

section \<open>The performance table (components/PerformanceTable.vue)\<close>

definition feature_object :: "ClusteringResult \<Rightarrow> object" where
  "feature_object e = map (\<lambda>(k, v). (k, Num v)) (features e)"

definition compare_employees :: "string \<Rightarrow> ClusteringResult \<Rightarrow> ClusteringResult \<Rightarrow> jsval" where
  "compare_employees sortBy a b =
     (if sortBy = ''performance_score''
      then js_minus (Num (performance_score b)) (Num (performance_score a))
      else (let aValue = js_or (js_get (feature_object a) sortBy) (Num 0);
                bValue = js_or (js_get (feature_object b) sortBy) (Num 0)
            in js_minus bValue aValue))"

text \<open>\<open>employees\<close> is the reference of the array passed as the \<^verbatim>\<open>employees\<close> prop.\<close>

definition sortedEmployees ::
  "ClusteringResult heap \<Rightarrow> nat \<Rightarrow> string \<Rightarrow> ClusteringResult heap \<times> nat" where
  "sortedEmployees h employees sortBy =
     (let (h, c) = spread h employees
      in Array_sort h c (compare_employees sortBy))"

definition getClusterBadgeClass :: "string \<Rightarrow> jsval" where
  "getClusterBadgeClass clusterLabel =
     (let classes =
            [(''High Performer'', Str ''bg-green-100 text-green-800''),
             (''Good Performer'', Str ''bg-blue-100 text-blue-800''),
             (''Average Performer'', Str ''bg-yellow-100 text-yellow-800''),
             (''Needs Improvement'', Str ''bg-red-100 text-red-800'')]
      in js_or (js_get classes clusterLabel) (Str ''bg-gray-100 text-gray-800''))"

section \<open>The date range picker (components/DateRangePicker.vue)\<close>

text \<open>
  A calendar day is (year, month, day of month) with JavaScript's months 0 to 11.
\<close>

type_synonym civil = "int \<times> int \<times> int"

definition leap_year :: "int \<Rightarrow> bool" where
  "leap_year y = (if y mod 400 = 0 then True else if y mod 100 = 0 then False else y mod 4 = 0)"

definition days_in_month :: "int \<Rightarrow> int \<Rightarrow> int" where
  "days_in_month y m =
     (if m = 1 then (if leap_year y then 29 else 28)
      else if m = 3 \<or> m = 5 \<or> m = 8 \<or> m = 10 then 30 else 31)"

fun prev_day :: "civil \<Rightarrow> civil" where
  "prev_day (y, m, d) =
     (if 1 < d then (y, m, d - 1)
      else if 0 < m then (y, m - 1, days_in_month y (m - 1))
      else (y - 1, 11, 31))"

fun next_day :: "civil \<Rightarrow> civil" where
  "next_day (y, m, d) =
     (if d < days_in_month y m then (y, m, d + 1)
      else if m < 11 then (y, m + 1, 1)
      else (y + 1, 0, 1))"

definition add_days :: "int \<Rightarrow> civil \<Rightarrow> civil" where
  "add_days n c = (if 0 \<le> n then (next_day ^^ nat n) c else (prev_day ^^ nat (- n)) c)"

text \<open>
  \<^verbatim>\<open>new Date(year, month, date)\<close> stands at local midnight of a calendar day: years 0 to
  99 mean 1900 to 1999, a month outside 0 to 11 carries into the year, and the day of
  month counts on from the first of that month (so day 0 is the last day of the month
  before). The result is that local calendar day.
\<close>

definition new_Date :: "int \<Rightarrow> int \<Rightarrow> int \<Rightarrow> civil" where
  "new_Date year month date =
     (let yr = (if 0 \<le> year \<and> year \<le> 99 then 1900 + year else year)
      in add_days (date - 1) (yr + month div 12, month mod 12, 1))"

definition digit_char :: "int \<Rightarrow> char" where
  "digit_char d = ''0123456789'' ! nat d"

definition two_digits :: "int \<Rightarrow> string" where
  "two_digits n = [digit_char (n div 10 mod 10), digit_char (n mod 10)]"

definition year_text :: "int \<Rightarrow> string" where
  "year_text y =
     (if 0 \<le> y \<and> y \<le> 9999 then two_digits (y div 100) @ two_digits (y mod 100)
      else (if y < 0 then ''-'' else ''+'')
           @ two_digits (\<bar>y\<bar> div 10000) @ two_digits (\<bar>y\<bar> div 100 mod 100)
           @ two_digits (\<bar>y\<bar> mod 100))"

text \<open>
  The browser's time zone gives, for every calendar day, the offset in minutes east of
  UTC that it applies to local midnight of that day. With daylight saving the offset
  changes from day to day, so each Date is converted with the offset of its own day.
\<close>

type_synonym time_zone = "civil \<Rightarrow> int"

text \<open>
  \<^verbatim>\<open>toISOString()\<close> of a Date that stands at local midnight of day \<open>c\<close>: the instant is
  \<open>tz c\<close> minutes before midnight UTC of \<open>c\<close>, and the text is that instant's UTC date and
  time.
\<close>

definition toISOString :: "time_zone \<Rightarrow> civil \<Rightarrow> string" where
  "toISOString tz c =
     (case add_days ((- tz c) div 1440) c of
        (y, m, d) \<Rightarrow>
          year_text y @ ''-'' @ two_digits (m + 1) @ ''-'' @ two_digits d @ ''T''
          @ two_digits ((- tz c) mod 1440 div 60) @ '':''
          @ two_digits ((- tz c) mod 1440 mod 60) @ '':00.000Z'')"

text \<open>\<^verbatim>\<open>s.split('T')[0]\<close>\<close>

definition split_T_0 :: "string \<Rightarrow> string" where
  "split_T_0 s = takeWhile (\<lambda>c. c \<noteq> CHR ''T'') s"

datatype event = Update_dateFrom string | Update_dateTo string | Apply

record picker =
  localDateFrom :: string
  localDateTo :: string
  emitted :: "event list"

definition updateDates :: "picker \<Rightarrow> picker" where
  "updateDates p =
     p\<lparr>emitted := emitted p @ [Update_dateFrom (localDateFrom p), Update_dateTo (localDateTo p)]\<rparr>"

text \<open>
  \<open>fullYear\<close> and \<open>month\<close> are \<^verbatim>\<open>now.getFullYear()\<close> and \<^verbatim>\<open>now.getMonth()\<close>, the local year
  and month of the moment of the click; \<open>tz\<close> is the browser's time zone. Both Dates are
  built at local midnight and each is printed by its own \<^verbatim>\<open>toISOString()\<close>.
\<close>

definition setCurrentMonth :: "time_zone \<Rightarrow> int \<Rightarrow> int \<Rightarrow> picker \<Rightarrow> picker" where
  "setCurrentMonth tz fullYear month p =
     (let firstDay = new_Date fullYear month 1;
          lastDay = new_Date fullYear (month + 1) 0
      in updateDates (p\<lparr>localDateFrom := split_T_0 (toISOString tz firstDay),
                         localDateTo := split_T_0 (toISOString tz lastDay)\<rparr>))"

definition setLastMonth :: "time_zone \<Rightarrow> int \<Rightarrow> int \<Rightarrow> picker \<Rightarrow> picker" where
  "setLastMonth tz fullYear month p =
     (let firstDay = new_Date fullYear (month - 1) 1;
          lastDay = new_Date fullYear month 0
      in updateDates (p\<lparr>localDateFrom := split_T_0 (toISOString tz firstDay),
                         localDateTo := split_T_0 (toISOString tz lastDay)\<rparr>))"

text \<open>The calendar date in ISO form, \<^verbatim>\<open>YYYY-MM-DD\<close>.\<close>

definition iso_date :: "civil \<Rightarrow> string" where
  "iso_date c = (case c of (y, m, d) \<Rightarrow> year_text y @ ''-'' @ two_digits (m + 1) @ ''-'' @ two_digits d)"

section \<open>The analytics core: feature extraction, dataset building, fitting\<close>

text \<open>
  The dashboard above only calls the analytics core over HTTP. The core itself (feature
  extractor, dataset builder, clustering entry point) is Python code of the backend and
  is not among the source files at hand, so the definitions of this section follow the
  written specification. Numbers are exact reals.
\<close>

text \<open>Modelled from the spec: the error taxonomy of section 7, with the fatal fit failure.\<close>

datatype core_error =
  InsufficientData | EmptyDataset | ModelNotFound | InvalidConfiguration | FitFailure

text \<open>
  Modelled from the spec: the attendance record of the record store (section 3). Dates
  are day numbers with day 0 a Monday; times are minutes after midnight.
\<close>

record AttendanceRecord =
  employee :: string
  date :: int
  clock_in :: "nat option"
  clock_out :: "nat option"
  worked_minutes :: nat
  overtime_minutes :: nat
  work_description :: string
  approved :: bool

text \<open>Modelled from the spec: the feature vector of section 3, in its fixed order.\<close>

record FeatureVector =
  total_work_hours :: real
  attendance_rate :: real
  punctuality_score :: real
  consistency_score :: real
  productivity_score :: real
  overtime_ratio :: real
  average_daily_hours :: real

text \<open>
  Modelled from the spec: the configuration of the extractor. The punctuality threshold
  is a configured time. The spec leaves the formulas behind \<open>consistency_score\<close> (from
  the day-level series of worked hours) and \<open>productivity_score\<close> (from the description
  texts and worked hours) open, so both raw scores are parameters; the extractor clamps
  them.
\<close>

record extractor_config =
  punctuality_threshold :: nat
  consistency_raw :: "real list \<Rightarrow> real"
  productivity_raw :: "(string \<times> real) list \<Rightarrow> real"

text \<open>Modelled from the spec: an inclusive date range; an absent bound is unbounded.\<close>

type_synonym window = "int option \<times> int option"

text \<open>Modelled from the spec: membership of a date in the inclusive range.\<close>

definition in_window :: "window \<Rightarrow> int \<Rightarrow> bool" where
  "in_window w d =
     ((case fst w of None \<Rightarrow> True | Some a \<Rightarrow> a \<le> d)
      \<and> (case snd w of None \<Rightarrow> True | Some b \<Rightarrow> d \<le> b))"

text \<open>Modelled from the spec: only approved records in range contribute (sections 3, 4.1).\<close>

definition qualifying :: "window \<Rightarrow> AttendanceRecord list \<Rightarrow> AttendanceRecord list" where
  "qualifying w rs = filter (\<lambda>r. approved r \<and> in_window w (date r)) rs"

text \<open>Modelled from the spec: the weekdays, Monday to Friday.\<close>

definition is_weekday :: "int \<Rightarrow> bool" where
  "is_weekday d = (d mod 7 < 5)"

text \<open>
  Modelled from the spec: the expected working days (section 4.1): the weekdays of the
  window, or the distinct dates present in the data when the window is open-ended.
\<close>

definition expected_days :: "window \<Rightarrow> int list \<Rightarrow> int list" where
  "expected_days w days =
     (case w of
        (Some a, Some b) \<Rightarrow> filter is_weekday [a..b]
      | _ \<Rightarrow> days)"

text \<open>Modelled from the spec: every ratio returns 0 when its denominator is 0 (section 4.1).\<close>

definition ratio :: "real \<Rightarrow> real \<Rightarrow> real" where
  "ratio a b = (if b = 0 then 0 else a / b)"

text \<open>Modelled from the spec: clamping a score to a range.\<close>

definition clamp :: "real \<Rightarrow> real \<Rightarrow> real \<Rightarrow> real" where
  "clamp lo hi x = max lo (min hi x)"

text \<open>Modelled from the spec: clocked in at or before the configured threshold time.\<close>

definition on_time :: "extractor_config \<Rightarrow> AttendanceRecord \<Rightarrow> bool" where
  "on_time cfg r = (case clock_in r of None \<Rightarrow> False | Some t \<Rightarrow> t \<le> punctuality_threshold cfg)"

text \<open>
  Modelled from the spec: the feature extractor (sections 3 and 4.1). Records are grouped
  by date; a record without clock-out counts toward attendance but not toward durations;
  \<open>attendance_rate\<close> is the share of the expected working days that have a qualifying
  record and \<open>punctuality_score\<close> the share of the days with records that have a clock-in
  at or before the threshold, both as percentages.
\<close>

definition extract_features ::
  "extractor_config \<Rightarrow> window \<Rightarrow> AttendanceRecord list \<Rightarrow> core_error + FeatureVector" where
  "extract_features cfg w rs =
     (let q = qualifying w rs in
      if q = [] then Inl InsufficientData
      else
        (let days = remdups (map date q);
             expected = expected_days w days;
             attended = filter (\<lambda>d. d \<in> set days) expected;
             punctual = filter (\<lambda>d. filter (\<lambda>r. date r = d \<and> on_time cfg r) q \<noteq> []) days;
             completed = filter (\<lambda>r. clock_out r \<noteq> None) q;
             hours_on = (\<lambda>d. real (sum_list (map worked_minutes
                                 (filter (\<lambda>r. date r = d) completed))) / 60);
             worked = real (sum_list (map worked_minutes completed));
             overtime = real (sum_list (map overtime_minutes completed))
         in Inr \<lparr>total_work_hours = worked / 60,
                 attendance_rate = 100 * ratio (real (length attended)) (real (length expected)),
                 punctuality_score = 100 * ratio (real (length punctual)) (real (length days)),
                 consistency_score = clamp 0 100 (consistency_raw cfg (map hours_on days)),
                 productivity_score =
                   clamp 0 100
                     (productivity_raw cfg
                        (map (\<lambda>r. (work_description r, real (worked_minutes r) / 60)) q)),
                 overtime_ratio = clamp 0 1 (ratio overtime worked),
                 average_daily_hours = ratio (worked / 60) (real (length days))\<rparr>))"














section \<open>Notions used in the statements\<close>

text \<open>What a request carries as its two date bounds.\<close>

definition date_params :: "request \<Rightarrow> jsval option \<times> jsval option" where
  "date_params r = (param ''date_from'' r, param ''date_to'' r)"

text \<open>Non-increasing order of \<open>performance_score\<close>.\<close>

definition descending :: "ClusteringResult list \<Rightarrow> bool" where
  "descending xs = sorted_wrt (\<lambda>x y. performance_score y \<le> performance_score x) xs"

text \<open>The store as \<^verbatim>\<open>defineStore\<close> sets it up.\<close>

definition initial_store :: "('o, 't, 'd, 'r) store" where
  "initial_store =
     \<lparr>loading = False, error = None, overview = None, teamPerformance = [],
      clusteringResults = None, dailyTrends = None, productivityRanking = [],
      dateFrom = '''', dateTo = ''''\<rparr>"

text \<open>
  The object \<open>d\<close> holds, for every key \<open>k\<close> with \<open>c k > 0\<close>, the number \<open>c k\<close>, and no
  other own property.
\<close>

definition tallied :: "object \<Rightarrow> (string \<Rightarrow> nat) \<Rightarrow> bool" where
  "tallied d c =
     (distinct (map fst d)
      \<and> map_of d = (\<lambda>k. if c k = 0 then None else Some (Num (real (c k)))))"

section \<open>Example inputs\<close>

definition scored :: "string \<Rightarrow> string \<Rightarrow> real \<Rightarrow> ClusteringResult" where
  "scored i l x = \<lparr>user_id = i, worker_id = ''W-'' @ i, name = ''Employee '' @ i, cluster = 0,
     cluster_label = l, performance_score = x, features = [(''attendance_rate'', x)]\<rparr>"

definition six_results :: "ClusteringResult list" where
  "six_results =
     [scored ''1'' ''Average Performer'' 61, scored ''2'' ''High Performer'' 93,
      scored ''3'' ''Needs Improvement'' 40, scored ''4'' ''High Performer'' 88,
      scored ''5'' ''Average Performer'' 61, scored ''6'' ''Good Performer'' 75]"

definition six_heap :: "ClusteringResult heap" where
  "six_heap = \<lparr>next_ref = 1, cells = (\<lambda>a. None)(0 \<mapsto> six_results)\<rparr>"

definition response_of :: "ClusteringResult list \<Rightarrow> ClusteringResponse" where
  "response_of rs = \<lparr>results = rs, cluster_centers = [], feature_names = [],
     analysis_period = (''2024-03-01'', ''2024-03-31''), total_users = real (length rs),
     model_accuracy = 0\<rparr>"

text \<open>Jakarta: seven hours east of UTC on every day.\<close>

definition jakarta :: time_zone where
  "jakarta c = 420"

text \<open>
  London in 2025: on UTC, and one hour east of it at the local midnights from 31 March
  to 26 October (summer time starts on 30 March and ends on 26 October, both after
  midnight).
\<close>

definition london_2025 :: time_zone where
  "london_2025 c =
     (case c of
        (y, m, d) \<Rightarrow>
          if (m = 2 \<and> 31 \<le> d) \<or> (3 \<le> m \<and> m \<le> 8) \<or> (m = 9 \<and> d \<le> 26) then 60 else 0)"

definition blank_picker :: picker where
  "blank_picker = \<lparr>localDateFrom = '''', localDateTo = '''', emitted = []\<rparr>"

definition offline :: "(string, 'a) server" where
  "offline r = Inl ''Network Error''"

definition office_config :: extractor_config where
  "office_config = \<lparr>punctuality_threshold = 540, consistency_raw = (\<lambda>hours. 250),
     productivity_raw = (\<lambda>notes. - 3)\<rparr>"

definition monday_shift :: AttendanceRecord where
  "monday_shift = \<lparr>employee = ''e1'', date = 0, clock_in = Some 480, clock_out = Some 1020,
     worked_minutes = 480, overtime_minutes = 0, work_description = ''site survey'',
     approved = True\<rparr>"

definition first_week :: window where
  "first_week = (Some 0, Some 6)"








section \<open>Requests built by the API service\<close>

lemma map_of_own_update:
  "map_of (own_update k v ps) k' = (if k' = k then Some v else map_of ps k')"
  by (induction ps) auto

lemma map_of_assign_if:
  "k \<noteq> ''__proto__'' \<Longrightarrow>
   map_of (assign_if k x ps) k'
     = (if k' = k \<and> date_bound x \<noteq> None then date_bound x else map_of ps k')"
  by (auto simp: assign_if_def js_set_def date_bound_def map_of_own_update split: option.splits)

lemma issued_api_get:
  "issued sent (snd (api_get server sent u ps)) = [\<lparr>url = u, params = ps\<rparr>]"
  by (simp add: api_get_def issued_def)

lemma date_bound_None_iff: "date_bound x = None \<longleftrightarrow> x = None \<or> x = Some []"
  by (simp add: date_bound_def split: option.splits)

lemma fetchOverview_cases:
  "fetchOverview server df dt s sent =
     (case fst (getAnalyticsOverview server sent df dt) of
        Inl e \<Rightarrow> s\<lparr>loading := False, error := Some ''Failed to fetch analytics overview''\<rparr>
      | Inr b \<Rightarrow> s\<lparr>loading := False, error := None, overview := Some b\<rparr>,
      snd (getAnalyticsOverview server sent df dt))"
  by (simp add: fetchOverview_def Let_def split: prod.splits sum.splits)

lemma fetchTeamPerformance_cases:
  "fetchTeamPerformance server df dt s sent =
     (case fst (getTeamPerformance server sent df dt) of
        Inl e \<Rightarrow> s\<lparr>loading := False, error := Some ''Failed to fetch team performance''\<rparr>
      | Inr b \<Rightarrow> s\<lparr>loading := False, error := None, teamPerformance := b\<rparr>,
      snd (getTeamPerformance server sent df dt))"
  by (simp add: fetchTeamPerformance_def Let_def split: prod.splits sum.splits)

lemma fetchClusteringAnalysis_cases:
  "fetchClusteringAnalysis server df dt n s sent =
     (case fst (getQuickClusteringAnalysis server sent df dt (Some (default_arg 3 n))) of
        Inl e \<Rightarrow> s\<lparr>loading := False, error := Some ''Failed to fetch clustering analysis''\<rparr>
      | Inr b \<Rightarrow> s\<lparr>loading := False, error := None, clusteringResults := Some b\<rparr>,
      snd (getQuickClusteringAnalysis server sent df dt (Some (default_arg 3 n))))"
  by (simp add: fetchClusteringAnalysis_def Let_def split: prod.splits sum.splits)

lemma fetchDailyTrends_cases:
  "fetchDailyTrends server df dt s sent =
     (case fst (getDailyTrends server sent df dt) of
        Inl e \<Rightarrow> s\<lparr>loading := False, error := Some ''Failed to fetch daily trends''\<rparr>
      | Inr b \<Rightarrow> s\<lparr>loading := False, error := None, dailyTrends := Some b\<rparr>,
      snd (getDailyTrends server sent df dt))"
  by (simp add: fetchDailyTrends_def Let_def split: prod.splits sum.splits)

lemma fetchProductivityRanking_cases:
  "fetchProductivityRanking server df dt n s sent =
     (case fst (getProductivityRanking server sent df dt (Some (default_arg 10 n))) of
        Inl e \<Rightarrow> s\<lparr>loading := False, error := Some ''Failed to fetch productivity ranking''\<rparr>
      | Inr b \<Rightarrow> s\<lparr>loading := False, error := None, productivityRanking := b\<rparr>,
      snd (getProductivityRanking server sent df dt (Some (default_arg 10 n))))"
  by (simp add: fetchProductivityRanking_def Let_def split: prod.splits sum.splits)

text \<open>
  C1. When the caller supplies no cluster count, \<^verbatim>\<open>apiService.getQuickClusteringAnalysis\<close>
  and the store action \<^verbatim>\<open>fetchClusteringAnalysis\<close> each issue exactly one request, and it
  carries \<^verbatim>\<open>n_clusters\<close> equal to 3.
\<close>

theorem default_cluster_count:
  "map (param ''n_clusters'')
       (issued sent (snd (getQuickClusteringAnalysis server sent df dt None)))
     = [Some (Num 3)]
   \<and> map (param ''n_clusters'')
       (issued sent (snd (fetchClusteringAnalysis server df dt None s sent)))
     = [Some (Num 3)]"
  by (simp add: fetchClusteringAnalysis_cases getQuickClusteringAnalysis_def issued_api_get
      param_def map_of_assign_if default_arg_def)

text \<open>
  C2. Each of the five analytics and ML fetch functions issues one request in which
  \<^verbatim>\<open>date_from\<close> is present exactly when the \<^verbatim>\<open>dateFrom\<close> argument is a non-empty string,
  then with that string as its value, and likewise \<^verbatim>\<open>date_to\<close> for \<^verbatim>\<open>dateTo\<close>; an absent or
  empty bound leaves the key out of the request.
\<close>

theorem date_bounds_sent_iff_nonempty:
  "map date_params (issued sent (snd (getAnalyticsOverview server1 sent df dt)))
     = [(date_bound df, date_bound dt)]
   \<and> map date_params (issued sent (snd (getTeamPerformance server2 sent df dt)))
     = [(date_bound df, date_bound dt)]
   \<and> map date_params (issued sent (snd (getProductivityRanking server3 sent df dt limit)))
     = [(date_bound df, date_bound dt)]
   \<and> map date_params (issued sent (snd (getDailyTrends server4 sent df dt)))
     = [(date_bound df, date_bound dt)]
   \<and> map date_params (issued sent (snd (getQuickClusteringAnalysis server5 sent df dt n)))
     = [(date_bound df, date_bound dt)]"
  by (simp add: getAnalyticsOverview_def getTeamPerformance_def getProductivityRanking_def
      getDailyTrends_def getQuickClusteringAnalysis_def issued_api_get param_def date_params_def
      map_of_assign_if)

section \<open>The store's fetch actions\<close>

text \<open>
  C8. For each of the five fetch actions: if the underlying API call throws, the data
  stored for that action is what it was before and \<open>error\<close> holds a message; and after
  the action, whether the call succeeded or failed, \<open>loading\<close> is false.
\<close>

theorem failed_fetch_keeps_data:
  "(let s' = fst (fetchOverview server1 df dt s sent) in
      (isl (fst (getAnalyticsOverview server1 sent df dt))
         \<longrightarrow> overview s' = overview s \<and> error s' \<noteq> None)
      \<and> \<not> loading s')
   \<and> (let s' = fst (fetchTeamPerformance server2 df dt s sent) in
      (isl (fst (getTeamPerformance server2 sent df dt))
         \<longrightarrow> teamPerformance s' = teamPerformance s \<and> error s' \<noteq> None)
      \<and> \<not> loading s')
   \<and> (let s' = fst (fetchClusteringAnalysis server3 df dt n s sent) in
      (isl (fst (getQuickClusteringAnalysis server3 sent df dt (Some (default_arg 3 n))))
         \<longrightarrow> clusteringResults s' = clusteringResults s \<and> error s' \<noteq> None)
      \<and> \<not> loading s')
   \<and> (let s' = fst (fetchDailyTrends server4 df dt s sent) in
      (isl (fst (getDailyTrends server4 sent df dt))
         \<longrightarrow> dailyTrends s' = dailyTrends s \<and> error s' \<noteq> None)
      \<and> \<not> loading s')
   \<and> (let s' = fst (fetchProductivityRanking server5 df dt m s sent) in
      (isl (fst (getProductivityRanking server5 sent df dt (Some (default_arg 10 m))))
         \<longrightarrow> productivityRanking s' = productivityRanking s \<and> error s' \<noteq> None)
      \<and> \<not> loading s')"
  unfolding fetchOverview_cases fetchTeamPerformance_cases fetchClusteringAnalysis_cases
    fetchDailyTrends_cases fetchProductivityRanking_cases Let_def
  by (simp split: sum.splits)

lemma offline_calls:
  "isl (fst (getAnalyticsOverview offline sent df dt))"
  "isl (fst (getTeamPerformance offline sent df dt))"
  "isl (fst (getQuickClusteringAnalysis offline sent df dt n))"
  "isl (fst (getDailyTrends offline sent df dt))"
  "isl (fst (getProductivityRanking offline sent df dt n))"
  by (simp_all add: getAnalyticsOverview_def getTeamPerformance_def
      getQuickClusteringAnalysis_def getDailyTrends_def getProductivityRanking_def
      api_get_def offline_def)

theorem failed_fetch_keeps_data_witness:
  "isl (fst (getAnalyticsOverview (offline :: (string, unit) server) [] None None))
   \<and> isl (fst (getTeamPerformance (offline :: (string, unit list) server) [] None None))
   \<and> isl (fst (getQuickClusteringAnalysis (offline :: (string, ClusteringResponse) server)
             [] None None (Some (default_arg 3 None))))
   \<and> isl (fst (getDailyTrends (offline :: (string, unit) server) [] None None))
   \<and> isl (fst (getProductivityRanking (offline :: (string, unit list) server)
             [] None None (Some (default_arg 10 None))))
   \<and> (let s' = fst (fetchOverview offline None None
                     (initial_store :: (unit, unit, unit, unit) store) [])
      in overview s' = None \<and> error s' \<noteq> None \<and> \<not> loading s')
   \<and> (let s' = fst (fetchTeamPerformance offline None None
                     (initial_store :: (unit, unit, unit, unit) store) [])
      in teamPerformance s' = [] \<and> error s' \<noteq> None \<and> \<not> loading s')
   \<and> (let s' = fst (fetchClusteringAnalysis offline None None None
                     (initial_store :: (unit, unit, unit, unit) store) [])
      in clusteringResults s' = None \<and> error s' \<noteq> None \<and> \<not> loading s')
   \<and> (let s' = fst (fetchDailyTrends offline None None
                     (initial_store :: (unit, unit, unit, unit) store) [])
      in dailyTrends s' = None \<and> error s' \<noteq> None \<and> \<not> loading s')
   \<and> (let s' = fst (fetchProductivityRanking offline None None None
                     (initial_store :: (unit, unit, unit, unit) store) [])
      in productivityRanking s' = [] \<and> error s' \<noteq> None \<and> \<not> loading s')"
  using failed_fetch_keeps_data [of offline None None
      "initial_store :: (unit, unit, unit, unit) store" "[]"
      offline offline None offline offline None]
  by (simp add: Let_def offline_calls initial_store_def)

section \<open>Sorting and the arrays it touches\<close>

lemma mset_insert_by: "mset (insert_by cmp x ys) = add_mset x (mset ys)"
  by (induction ys) auto

lemma sort_by_Cons: "sort_by cmp (x # xs) = insert_by cmp x (sort_by cmp xs)"
  by (simp add: sort_by_def)

lemma mset_sort_by: "mset (sort_by cmp xs) = mset xs"
  by (induction xs) (auto simp: sort_by_def mset_insert_by)

lemma length_sort_by: "length (sort_by cmp xs) = length xs"
  using mset_sort_by [of cmp xs] by (metis size_mset)

lemma set_insert_by: "set (insert_by cmp x ys) = insert x (set ys)"
  by (induction ys) auto

lemma descending_insert_by:
  "descending ys \<Longrightarrow> descending (insert_by by_performance_score x ys)"
  by (induction ys) (auto simp: descending_def by_performance_score_def set_insert_by)

lemma descending_sort_by: "descending (sort_by by_performance_score xs)"
proof (induction xs)
  case Nil
  show ?case by (simp add: sort_by_def descending_def)
next
  case (Cons x xs)
  then show ?case by (simp add: sort_by_Cons descending_insert_by)
qed

lemma descending_take: "descending xs \<Longrightarrow> descending (take n xs)"
  unfolding descending_def by (rule sorted_wrt_take)

lemma topPerformers_Some:
  "topPerformers h (Some a) =
     (h\<lparr>next_ref := Suc (Suc (next_ref h)),
        cells := (cells h)
          (next_ref h \<mapsto> sort_by by_performance_score (array_read h a),
           Suc (next_ref h) \<mapsto> take 5 (sort_by by_performance_score (array_read h a)))\<rparr>,
      Suc (next_ref h))"
  by (simp add: topPerformers_def spread_def alloc_def Array_sort_def Array_slice_def
      array_read_def)

lemma sortedEmployees_eq:
  "sortedEmployees h a sortBy =
     (h\<lparr>next_ref := Suc (next_ref h),
        cells := (cells h)
          (next_ref h \<mapsto> sort_by (compare_employees sortBy) (array_read h a))\<rparr>,
      next_ref h)"
  by (simp add: sortedEmployees_def spread_def alloc_def Array_sort_def array_read_def)

lemma six_heap_holds: "cells six_heap 0 = Some six_results" "0 < next_ref six_heap"
  by (simp_all add: six_heap_def)

text \<open>
  C9. With a clustering response stored, its results array at reference \<open>a\<close> of the heap:
  \<open>topPerformers\<close> returns an array of length \<open>min 5 (length results)\<close>, whose elements are
  drawn from the results, in non-increasing order of \<open>performance_score\<close>; and the stored
  results array holds afterwards what it held before.
\<close>

theorem topPerformers_top_five:
  assumes "cells h a = Some rs" and "a < next_ref h"
  shows "case topPerformers h (Some a) of
           (h', t) \<Rightarrow>
             length (array_read h' t) = min 5 (length rs)
             \<and> mset (array_read h' t) \<subseteq># mset rs
             \<and> descending (array_read h' t)
             \<and> cells h' a = Some rs"
proof -
  let ?s = "sort_by by_performance_score rs"
  have rd: "array_read h a = rs"
    using assms(1) by (simp add: array_read_def)
  have "mset (take 5 ?s) \<subseteq># mset ?s"
    by (metis append_take_drop_id mset_append mset_subset_eq_add_left)
  then have sub: "mset (take 5 ?s) \<subseteq># mset rs"
    by (simp add: mset_sort_by)
  have len: "length (take 5 ?s) = min 5 (length rs)"
    by (simp add: length_sort_by)
  have desc: "descending (take 5 ?s)"
    by (simp add: descending_take descending_sort_by)
  show ?thesis
    using assms sub len desc by (simp add: topPerformers_Some rd array_read_def)
qed

theorem topPerformers_top_five_witness:
  "cells six_heap 0 = Some six_results \<and> 0 < next_ref six_heap
   \<and> (case topPerformers six_heap (Some 0) of
         (h', t) \<Rightarrow>
           length (array_read h' t) = min 5 (length six_results)
           \<and> mset (array_read h' t) \<subseteq># mset six_results
           \<and> descending (array_read h' t)
           \<and> cells h' 0 = Some six_results)"
  using topPerformers_top_five [OF six_heap_holds] six_heap_holds by simp

text \<open>
  C6. With the \<^verbatim>\<open>employees\<close> prop at reference \<open>a\<close> of the heap and any sort key:
  \<open>sortedEmployees\<close> returns another array that holds the same rows as the prop, each as
  often as the prop does, and the prop's array holds afterwards what it held before.
\<close>

theorem sortedEmployees_permutes:
  assumes "cells h a = Some es" and "a < next_ref h"
  shows "case sortedEmployees h a sortBy of
           (h', r) \<Rightarrow> mset (array_read h' r) = mset es \<and> cells h' a = Some es \<and> r \<noteq> a"
  using assms by (simp add: sortedEmployees_eq array_read_def mset_sort_by)

theorem sortedEmployees_permutes_witness:
  "cells six_heap 0 = Some six_results \<and> 0 < next_ref six_heap
   \<and> (case sortedEmployees six_heap 0 ''attendance_rate'' of
         (h', r) \<Rightarrow> mset (array_read h' r) = mset six_results
                    \<and> cells h' 0 = Some six_results \<and> r \<noteq> 0)"
  using sortedEmployees_permutes [OF six_heap_holds, of "''attendance_rate''"] six_heap_holds
  by simp

section \<open>The badge class of a cluster label\<close>

text \<open>
  For a label that is not a property name of \<^verbatim>\<open>Object.prototype\<close> the lookup behaves as
  a table with a default: the four labels get their four classes, anything else the gray
  class.
\<close>

lemma getClusterBadgeClass_plain_label:
  "k \<notin> set Object_prototype_keys \<Longrightarrow>
   getClusterBadgeClass k =
     (if k = ''High Performer'' then Str ''bg-green-100 text-green-800''
      else if k = ''Good Performer'' then Str ''bg-blue-100 text-blue-800''
      else if k = ''Average Performer'' then Str ''bg-yellow-100 text-yellow-800''
      else if k = ''Needs Improvement'' then Str ''bg-red-100 text-red-800''
      else Str ''bg-gray-100 text-gray-800'')"
  by (simp add: getClusterBadgeClass_def js_get_def js_or_def)

text \<open>
  C5. The claim asks for the gray class \<^verbatim>\<open>bg-gray-100 text-gray-800\<close> on every string
  other than the four labels. For the label \<^verbatim>\<open>constructor\<close> the lookup
  \<^verbatim>\<open>classes[clusterLabel]\<close> finds the inherited \<^verbatim>\<open>Object.prototype.constructor\<close>, which is
  truthy, so the function returns that built-in and not the gray class.
\<close>

theorem getClusterBadgeClass_constructor:
  "getClusterBadgeClass ''constructor'' = Inherited ''constructor''
   \<and> getClusterBadgeClass ''constructor'' \<noteq> Str ''bg-gray-100 text-gray-800''"
  by (simp add: getClusterBadgeClass_def js_get_def js_or_def Object_prototype_keys_def)

section \<open>The cluster distribution\<close>

lemma keys_own_update:
  "map fst (own_update k v ps) = (if k \<in> fst ` set ps then map fst ps else map fst ps @ [k])"
  by (induction ps) auto

lemma distinct_own_update:
  "distinct (map fst ps) \<Longrightarrow> distinct (map fst (own_update k v ps))"
  by (auto simp: keys_own_update)

lemma proto_in_keys: "''__proto__'' \<in> set Object_prototype_keys"
  by (simp add: Object_prototype_keys_def)

lemma tallied_step:
  assumes "tallied d c" and "l \<notin> set Object_prototype_keys"
  shows "tallied (js_set d l (js_plus_one (js_or (js_get d l) (Num 0)))) (c(l := Suc (c l)))"
proof -
  have l: "l \<noteq> ''__proto__''" using assms(2) proto_in_keys by auto
  have m: "map_of d l = (if c l = 0 then None else Some (Num (real (c l))))"
    using assms(1) by (simp add: tallied_def)
  have v: "js_plus_one (js_or (js_get d l) (Num 0)) = Num (real (Suc (c l)))"
    using assms(2) m by (simp add: js_get_def js_or_def add.commute)
  show ?thesis
    using assms(1) l unfolding v
    by (auto simp: tallied_def js_set_def distinct_own_update map_of_own_update fun_eq_iff)
qed

lemma tallied_tally:
  "tallied d c \<Longrightarrow> \<forall>r \<in> set rs. cluster_label r \<notin> set Object_prototype_keys \<Longrightarrow>
   tallied (tally rs d) (\<lambda>k. c k + count_list (map cluster_label rs) k)"
proof (induction rs arbitrary: d c)
  case Nil
  then show ?case by simp
next
  case (Cons r rs)
  let ?l = "cluster_label r"
  have "tallied (js_set d ?l (js_plus_one (js_or (js_get d ?l) (Num 0)))) (c(?l := Suc (c ?l)))"
    using Cons.prems by (intro tallied_step) auto
  from Cons.IH [OF this] Cons.prems(2)
  have "tallied (tally (r # rs) d)
          (\<lambda>k. (c(?l := Suc (c ?l))) k + count_list (map cluster_label rs) k)"
    by simp
  moreover have "(\<lambda>k. (c(?l := Suc (c ?l))) k + count_list (map cluster_label rs) k)
    = (\<lambda>k. c k + count_list (map cluster_label (r # rs)) k)"
    by (auto simp: fun_eq_iff)
  ultimately show ?case by simp
qed

lemma mset_Object_entries: "mset (Object_entries obj) = mset obj"
  by (simp add: Object_entries_def)

lemma set_Object_entries: "set (Object_entries obj) = set obj"
  using mset_Object_entries [of obj] by (metis set_mset_mset)

lemma distinct_Object_entries:
  "distinct (map fst obj) \<Longrightarrow> distinct (map fst (Object_entries obj))"
proof -
  assume d: "distinct (map fst obj)"
  have "mset (map fst (Object_entries obj)) = mset (map fst obj)"
    by (simp add: mset_Object_entries)
  then show ?thesis using d by (metis mset_eq_imp_distinct_iff)
qed

lemma tallied_empty: "tallied [] (\<lambda>k. 0)"
  by (simp add: tallied_def)

lemma clusterDistribution_safe_labels:
  assumes "clusteringResults s = Some response"
    and "\<forall>r \<in> set (results response). cluster_label r \<notin> set Object_prototype_keys"
  shows "distinct (map label (clusterDistribution s))"
    and "set (map label (clusterDistribution s)) = cluster_label ` set (results response)"
    and "\<forall>e \<in> set (clusterDistribution s).
           count_of e = Num (real (count_list (map cluster_label (results response)) (label e)))
           \<and> percentage e = js_times_100 (js_div (count_of e) (total_users response))"
proof -
  let ?ls = "map cluster_label (results response)"
  let ?d = "tally (results response) []"
  have t: "tallied ?d (count_list ?ls)"
    using tallied_tally [OF tallied_empty assms(2)] by simp
  have lab: "map label (clusterDistribution s) = map fst (Object_entries ?d)"
    by (simp add: clusterDistribution_def assms(1) split_def comp_def)
  show "distinct (map label (clusterDistribution s))"
    unfolding lab using t by (simp add: tallied_def distinct_Object_entries)
  have dom: "fst ` set ?d = {k. count_list ?ls k \<noteq> 0}"
  proof -
    have "fst ` set ?d = dom (map_of ?d)" by (simp add: dom_map_of_conv_image_fst)
    also have "\<dots> = {k. count_list ?ls k \<noteq> 0}"
      using t by (auto simp: tallied_def dom_def)
    finally show ?thesis .
  qed
  show "set (map label (clusterDistribution s)) = cluster_label ` set (results response)"
    unfolding lab using dom by (auto simp: set_Object_entries count_list_0_iff)
  show "\<forall>e \<in> set (clusterDistribution s).
           count_of e = Num (real (count_list ?ls (label e)))
           \<and> percentage e = js_times_100 (js_div (count_of e) (total_users response))"
  proof
    fix e assume "e \<in> set (clusterDistribution s)"
    then obtain l c where e: "e = \<lparr>label = l, count_of = c,
        percentage = js_times_100 (js_div c (total_users response))\<rparr>" and lc: "(l, c) \<in> set ?d"
      by (auto simp: clusterDistribution_def assms(1) set_Object_entries)
    have dist: "distinct (map fst ?d)"
      using t by (simp add: tallied_def)
    have "map_of ?d l = Some c"
      using lc dist by (rule_tac map_of_is_SomeI)
    then have "c = Num (real (count_list ?ls l))"
      using t by (auto simp: tallied_def split: if_splits)
    then show "count_of e = Num (real (count_list ?ls (label e)))
           \<and> percentage e = js_times_100 (js_div (count_of e) (total_users response))"
      by (simp add: e)
  qed
qed


lemma not_index_constructor: "\<not> is_array_index ''constructor''"
  by (simp add: is_array_index_def is_digit_def)

text \<open>
  C10. The claim asks for one entry per distinct label, whose count is the number of
  results bearing the label. For a response whose only result is labelled
  \<^verbatim>\<open>constructor\<close>, \<^verbatim>\<open>distribution[label] || 0\<close> reads the inherited built-in instead of
  0, so the entry's count is a text and its percentage is \<^verbatim>\<open>NaN\<close>; for the label
  \<^verbatim>\<open>__proto__\<close> the assignment is swallowed and there is no entry at all.
\<close>

theorem clusterDistribution_constructor:
  "clusterDistribution ((initial_store :: (unit, unit, unit, unit) store)
       \<lparr>clusteringResults := Some (response_of [scored ''1'' ''constructor'' 80])\<rparr>)
     = [\<lparr>label = ''constructor'', count_of = Str ''function Object() { [native code] }1'',
         percentage = NaN\<rparr>]
   \<and> clusterDistribution ((initial_store :: (unit, unit, unit, unit) store)
       \<lparr>clusteringResults := Some (response_of [scored ''1'' ''__proto__'' 80])\<rparr>)
     = []"
  by (simp add: clusterDistribution_def initial_store_def response_of_def scored_def
      js_get_def js_set_def js_or_def Object_prototype_keys_def builtin_text_def
      Object_entries_def not_index_constructor)

section \<open>This month and last month\<close>

lemma digit_char_not_T: "0 \<le> d \<Longrightarrow> d < 10 \<Longrightarrow> digit_char d \<noteq> CHR ''T''"
proof -
  assume "0 \<le> d" "d < 10"
  then have "d = 0 \<or> d = 1 \<or> d = 2 \<or> d = 3 \<or> d = 4 \<or> d = 5 \<or> d = 6 \<or> d = 7 \<or> d = 8 \<or> d = 9"
    by arith
  then show ?thesis by (auto simp: digit_char_def)
qed

lemma two_digits_no_T: "CHR ''T'' \<notin> set (two_digits n)"
  using digit_char_not_T [of "n div 10 mod 10"] digit_char_not_T [of "n mod 10"]
  by (auto simp: two_digits_def)

lemma year_text_no_T: "CHR ''T'' \<notin> set (year_text y)"
  using two_digits_no_T by (auto simp: year_text_def)

lemma iso_date_no_T: "CHR ''T'' \<notin> set (iso_date c)"
  using two_digits_no_T year_text_no_T by (auto simp: iso_date_def split: prod.splits)

lemma split_T_0_prefix: "CHR ''T'' \<notin> set xs \<Longrightarrow> split_T_0 (xs @ CHR ''T'' # ys) = xs"
  by (induction xs) (auto simp: split_T_0_def)

lemma toISOString_date:
  "split_T_0 (toISOString tz c) = iso_date (add_days ((- tz c) div 1440) c)"
proof -
  obtain y m d where c: "add_days ((- tz c) div 1440) c = (y, m, d)"
    by (cases "add_days ((- tz c) div 1440) c") auto
  have "toISOString tz c = iso_date (y, m, d) @ CHR ''T'' #
          (two_digits ((- tz c) mod 1440 div 60) @ '':''
           @ two_digits ((- tz c) mod 1440 mod 60) @ '':00.000Z'')"
    by (simp add: toISOString_def c iso_date_def)
  then show ?thesis
    using split_T_0_prefix [OF iso_date_no_T] by (simp add: c)
qed

lemma add_days_0: "add_days 0 c = c"
  by (simp add: add_days_def)

lemma add_days_minus_1: "add_days (- 1) c = prev_day c"
  by (simp add: add_days_def)

lemma new_Date_first:
  "0 \<le> m \<Longrightarrow> m \<le> 11 \<Longrightarrow> 100 \<le> y \<Longrightarrow> new_Date y m 1 = (y, m, 1)"
  by (simp add: new_Date_def add_days_0)

lemma new_Date_last:
  "0 \<le> m \<Longrightarrow> m \<le> 11 \<Longrightarrow> 100 \<le> y \<Longrightarrow> new_Date y (m + 1) 0 = (y, m, days_in_month y m)"
proof (cases "m = 11")
  case True
  then show ?thesis if "100 \<le> y" using that
    by (simp add: new_Date_def add_days_minus_1 days_in_month_def)
next
  case False
  assume "0 \<le> m" "m \<le> 11" "100 \<le> y"
  then have "(m + 1) div 12 = 0" "(m + 1) mod 12 = m + 1" using False by auto
  then show ?thesis using \<open>0 \<le> m\<close> \<open>100 \<le> y\<close>
    by (simp add: new_Date_def add_days_minus_1)
qed

lemma west_offset: "- 1440 < k \<Longrightarrow> k \<le> 0 \<Longrightarrow> (- k) div 1440 = (0::int)"
  by simp

lemma east_offset: "0 < k \<Longrightarrow> k \<le> 1440 \<Longrightarrow> (- k) div 1440 = (- 1::int)"
  by (rule int_div_pos_eq [where r = "1440 - k"]) simp_all

text \<open>
  What \<open>setCurrentMonth\<close> emits in any time zone: the first and the last local day of the
  month, each moved by the whole days that its own offset takes it away from UTC.
\<close>

lemma setCurrentMonth_emits:
  assumes "0 \<le> m" "m \<le> 11" "100 \<le> y"
  shows "emitted (setCurrentMonth tz y m p)
     = emitted p
       @ [Update_dateFrom (iso_date (add_days ((- tz (y, m, 1)) div 1440) (y, m, 1))),
          Update_dateTo (iso_date (add_days ((- tz (y, m, days_in_month y m)) div 1440)
                                     (y, m, days_in_month y m)))]"
  using assms
  by (simp add: setCurrentMonth_def updateDates_def toISOString_date new_Date_first
      new_Date_last Let_def)

text \<open>
  If on both days local midnight is at or behind UTC, the two dates are the first and the
  last day of the month.
\<close>

lemma setCurrentMonth_west:
  assumes "- 1440 < tz (y, m, 1)" "tz (y, m, 1) \<le> 0"
    and "- 1440 < tz (y, m, days_in_month y m)" "tz (y, m, days_in_month y m) \<le> 0"
    and "0 \<le> m" "m \<le> 11" "100 \<le> y"
  shows "emitted (setCurrentMonth tz y m p)
     = emitted p @ [Update_dateFrom (iso_date (y, m, 1)),
                    Update_dateTo (iso_date (y, m, days_in_month y m))]"
  using assms by (simp add: setCurrentMonth_emits west_offset add_days_0)

text \<open>If on both days local midnight is ahead of UTC, both dates are one day early.\<close>

lemma setCurrentMonth_east:
  assumes "0 < tz (y, m, 1)" "tz (y, m, 1) \<le> 1440"
    and "0 < tz (y, m, days_in_month y m)" "tz (y, m, days_in_month y m) \<le> 1440"
    and "0 \<le> m" "m \<le> 11" "100 \<le> y"
  shows "emitted (setCurrentMonth tz y m p)
     = emitted p @ [Update_dateFrom (iso_date (prev_day (y, m, 1))),
                    Update_dateTo (iso_date (prev_day (y, m, days_in_month y m)))]"
  using assms
  by (simp add: setCurrentMonth_emits east_offset add_days_minus_1 del: prev_day.simps)

lemma new_Date_previous_first:
  "0 \<le> m \<Longrightarrow> m \<le> 11 \<Longrightarrow> 100 \<le> y \<Longrightarrow>
   new_Date y (m - 1) 1 = (if m = 0 then (y - 1, 11, 1) else (y, m - 1, 1))"
proof (cases "m = 0")
  case True
  then show ?thesis if "100 \<le> y" using that
    by (simp add: new_Date_def add_days_0)
next
  case False
  assume "0 \<le> m" "m \<le> 11" "100 \<le> y"
  then have "(m - 1) div 12 = 0" "(m - 1) mod 12 = m - 1" using False by auto
  then show ?thesis using False \<open>100 \<le> y\<close>
    by (simp add: new_Date_def add_days_0)
qed

lemma new_Date_previous_last:
  "0 \<le> m \<Longrightarrow> m \<le> 11 \<Longrightarrow> 100 \<le> y \<Longrightarrow> new_Date y m 0 = prev_day (y, m, 1)"
  by (simp add: new_Date_def add_days_minus_1 del: prev_day.simps)

text \<open>What \<open>setLastMonth\<close> emits in any time zone, in the same way.\<close>

lemma setLastMonth_emits:
  assumes "0 \<le> m" "m \<le> 11" "100 \<le> y"
    and "f = (if m = 0 then (y - 1, 11, 1) else (y, m - 1, 1))" and "l = prev_day (y, m, 1)"
  shows "emitted (setLastMonth tz y m p)
     = emitted p
       @ [Update_dateFrom (iso_date (add_days ((- tz f) div 1440) f)),
          Update_dateTo (iso_date (add_days ((- tz l) div 1440) l))]"
  using assms(1-3) unfolding assms(4,5)
  by (simp add: setLastMonth_def updateDates_def toISOString_date new_Date_previous_first
      new_Date_previous_last Let_def del: prev_day.simps)

lemmas date_eval = new_Date_def add_days_def toISOString_def split_T_0_def
  updateDates_def year_text_def two_digits_def digit_char_def days_in_month_def leap_year_def
  iso_date_def blank_picker_def

text \<open>What the claim expects for a click in March 2024.\<close>

lemma march_2024:
  "iso_date (2024, 2, 1) = ''2024-03-01''" "iso_date (2024, 2, 31) = ''2024-03-31''"
  "iso_date (2024, 1, 1) = ''2024-02-01''" "iso_date (2024, 1, 29) = ''2024-02-29''"
  by (simp_all add: date_eval)

text \<open>
  With daylight saving the two dates can fare differently: in London the first of March
  2025 is on UTC and the thirty-first is an hour ahead, so the first date is right and the
  last is a day early.
\<close>

lemma setCurrentMonth_london_march_2025:
  "emitted (setCurrentMonth london_2025 2025 2 blank_picker)
     = [Update_dateFrom ''2025-03-01'', Update_dateTo ''2025-03-30'']"
  by (simp add: setCurrentMonth_def date_eval london_2025_def)

text \<open>
  C7. The claim asks for the first and the last day of the current month (and of the
  previous month for \<^verbatim>\<open>setLastMonth\<close>). In a browser in Jakarta, seven hours east of UTC all
  year, a click in March 2024 emits 2024-02-29 and 2024-03-30 for this month, and
  2024-01-31 and 2024-02-28 for last month: \<^verbatim>\<open>toISOString\<close> prints local midnight as the
  evening before in UTC.
\<close>

theorem month_buttons_east_of_utc:
  "emitted (setCurrentMonth jakarta 2024 2 blank_picker)
     = [Update_dateFrom ''2024-02-29'', Update_dateTo ''2024-03-30'']
   \<and> emitted (setLastMonth jakarta 2024 2 blank_picker)
     = [Update_dateFrom ''2024-01-31'', Update_dateTo ''2024-02-28'']"
  by (simp add: setCurrentMonth_def setLastMonth_def date_eval jakarta_def)

section \<open>The analytics core\<close>

lemma ratio_bounds: "0 \<le> a \<Longrightarrow> a \<le> b \<Longrightarrow> 0 \<le> ratio a b \<and> ratio a b \<le> 1"
  by (simp add: ratio_def)

lemma clamp_bounds: "lo \<le> hi \<Longrightarrow> lo \<le> clamp lo hi x \<and> clamp lo hi x \<le> hi"
  by (simp add: clamp_def)

lemma percent_bounds:
  "length xs \<le> length ys \<Longrightarrow>
   0 \<le> 100 * ratio (real (length xs)) (real (length ys))
   \<and> 100 * ratio (real (length xs)) (real (length ys)) \<le> 100"
  using ratio_bounds [of "real (length xs)" "real (length ys)"] by simp

lemma upto_week: "[0..6] = [0, 1, 2, 3, 4, 5, 6::int]"
  by (simp add: upto_rec1)

lemma extract_monday:
  "extract_features office_config first_week [monday_shift]
     = Inr \<lparr>total_work_hours = 8, attendance_rate = 20, punctuality_score = 100,
            consistency_score = 100, productivity_score = 0, overtime_ratio = 0,
            average_daily_hours = 8\<rparr>"
  by (simp add: extract_features_def qualifying_def in_window_def first_week_def
      monday_shift_def expected_days_def upto_week is_weekday_def on_time_def office_config_def
      ratio_def clamp_def Let_def)



text \<open>
  C4. Whenever the extractor returns a feature vector, its \<open>attendance_rate\<close>,
  \<open>punctuality_score\<close>, \<open>consistency_score\<close> and \<open>productivity_score\<close> each lie between 0
  and 100.
\<close>

theorem scores_in_range:
  assumes "extract_features cfg w rs = Inr v"
  shows "0 \<le> attendance_rate v \<and> attendance_rate v \<le> 100
       \<and> 0 \<le> punctuality_score v \<and> punctuality_score v \<le> 100
       \<and> 0 \<le> consistency_score v \<and> consistency_score v \<le> 100
       \<and> 0 \<le> productivity_score v \<and> productivity_score v \<le> 100"
proof -
  let ?q = "qualifying w rs"
  let ?days = "remdups (map date ?q)"
  let ?exp = "expected_days w ?days"
  have q: "?q \<noteq> []"
    using assms by (auto simp: extract_features_def Let_def split: if_splits)
  have att: "attendance_rate v
    = 100 * ratio (real (length (filter (\<lambda>d. d \<in> set ?days) ?exp))) (real (length ?exp))"
    using assms q by (auto simp: extract_features_def Let_def)
  have pun: "punctuality_score v
    = 100 * ratio
        (real (length (filter (\<lambda>d. filter (\<lambda>r. date r = d \<and> on_time cfg r) ?q \<noteq> []) ?days)))
        (real (length ?days))"
    using assms q by (auto simp: extract_features_def Let_def)
  have con: "\<exists>x. consistency_score v = clamp 0 100 x"
    using assms q by (auto simp: extract_features_def Let_def)
  have pro: "\<exists>x. productivity_score v = clamp 0 100 x"
    using assms q by (auto simp: extract_features_def Let_def)
  have a: "0 \<le> attendance_rate v \<and> attendance_rate v \<le> 100"
    unfolding att by (rule percent_bounds) simp
  have p: "0 \<le> punctuality_score v \<and> punctuality_score v \<le> 100"
    unfolding pun by (rule percent_bounds) simp
  have c: "0 \<le> consistency_score v \<and> consistency_score v \<le> 100"
    using con clamp_bounds [of 0 100] by auto
  have d: "0 \<le> productivity_score v \<and> productivity_score v \<le> 100"
    using pro clamp_bounds [of 0 100] by auto
  show ?thesis using a p c d by simp
qed

theorem scores_in_range_witness:
  "extract_features office_config first_week [monday_shift]
     = Inr \<lparr>total_work_hours = 8, attendance_rate = 20, punctuality_score = 100,
            consistency_score = 100, productivity_score = 0, overtime_ratio = 0,
            average_daily_hours = 8\<rparr>
   \<and> (0::real) \<le> 20 \<and> (20::real) \<le> 100 \<and> (0::real) \<le> 100 \<and> (100::real) \<le> 100
   \<and> (0::real) \<le> 0"
  using scores_in_range [OF extract_monday] extract_monday by simp

















end
